theory Spec2Isabelle
  imports Main "HOL-Library.Sublist"
begin

section \<open>Python strings\<close>

text \<open>
  A Python \<open>str\<close> is modelled as a HOL \<open>string\<close>: a list of characters with code points
  below 256. On these code points \<open>str.isspace\<close>, which decides what \<open>str.split()\<close> and
  \<open>str.strip()\<close> remove, holds for the characters 9 to 13, 28 to 32, 133 and 160, and
  \<open>str.lower\<close> moves \<open>A\<close> to \<open>Z\<close> and the capital letters 192 to 222 (215, the
  multiplication sign, apart) up by 32.
\<close>

definition isspace :: "char \<Rightarrow> bool" where
  "isspace c =
     (let n = (of_char c :: nat)
      in (9 \<le> n \<and> n \<le> 13) \<or> (28 \<le> n \<and> n \<le> 32) \<or> n = 133 \<or> n = 160)"

definition lower_char :: "char \<Rightarrow> char" where
  "lower_char c =
     (let n = (of_char c :: nat)
      in if (65 \<le> n \<and> n \<le> 90) \<or> (192 \<le> n \<and> n \<le> 222 \<and> n \<noteq> 215)
         then char_of (n + 32) else c)"

definition lower :: "string \<Rightarrow> string" where
  "lower s = map lower_char s"

text \<open>\<open>s.strip()\<close>: whitespace removed at both ends.\<close>

definition strip :: "string \<Rightarrow> string" where
  "strip s = rev (dropWhile isspace (rev (dropWhile isspace s)))"

text \<open>
  \<open>s.split()\<close>: the maximal runs of non-whitespace characters, in order. The first
  argument is the run read so far.
\<close>

fun split_from :: "string \<Rightarrow> string \<Rightarrow> string list" where
  "split_from cur [] = (if cur = [] then [] else [cur])"
| "split_from cur (c # cs) =
     (if isspace c
      then (if cur = [] then split_from [] cs else cur # split_from [] cs)
      else split_from (cur @ [c]) cs)"

definition split :: "string \<Rightarrow> string list" where
  "split s = split_from [] s"

text \<open>\<open>sep.join(parts)\<close>.\<close>

fun join :: "string \<Rightarrow> string list \<Rightarrow> string" where
  "join sep [] = []"
| "join sep [p] = p"
| "join sep (p # q # ps) = p @ sep @ join sep (q # ps)"

text \<open>\<open>s.replace(old, new)\<close> for one-character \<open>old\<close> and \<open>new\<close>.\<close>

fun replace :: "string \<Rightarrow> char \<Rightarrow> char \<Rightarrow> string" where
  "replace [] old new = []"
| "replace (c # cs) old new = (if c = old then new else c) # replace cs old new"

text \<open>\<open>needle in hay\<close> on strings is containment as a contiguous substring.\<close>

definition str_in :: "string \<Rightarrow> string \<Rightarrow> bool" where
  "str_in needle hay = sublist needle hay"

section \<open>Python dictionaries\<close>

text \<open>
  A \<open>dict\<close> keeps its keys in insertion order: it is an association list whose keys are
  distinct. Assigning to a key that is present keeps the key's position; assigning to a new
  key appends it.
\<close>

type_synonym dict = "(string \<times> string) list"

datatype py_error = KeyError

definition dict_wf :: "dict \<Rightarrow> bool" where
  "dict_wf d = distinct (map fst d)"

definition dict_keys :: "dict \<Rightarrow> string list" where
  "dict_keys d = map fst d"

definition dict_get :: "dict \<Rightarrow> string \<Rightarrow> string option" where
  "dict_get d k = map_of d k"

text \<open>\<open>d[k]\<close> raises \<open>KeyError\<close> when \<open>k\<close> is not a key.\<close>

definition dict_index :: "dict \<Rightarrow> string \<Rightarrow> py_error + string" where
  "dict_index d k = (case dict_get d k of None \<Rightarrow> Inl KeyError | Some v \<Rightarrow> Inr v)"

fun dict_set :: "dict \<Rightarrow> string \<Rightarrow> string \<Rightarrow> dict" where
  "dict_set [] k v = [(k, v)]"
| "dict_set ((k', v') # d) k v =
     (if k' = k then (k, v) # d else (k', v') # dict_set d k v)"

text \<open>\<open>d.setdefault(k, v)\<close>: stores \<open>v\<close> only when \<open>k\<close> is not yet a key.\<close>

definition dict_setdefault :: "dict \<Rightarrow> string \<Rightarrow> string \<Rightarrow> dict" where
  "dict_setdefault d k v = (if k \<in> set (dict_keys d) then d else dict_set d k v)"

section \<open>The field selector\<close>

text \<open>The table \<open>desired_to_label_hints\<close> of \<open>select_interesting_fields\<close>, in its order.\<close>

definition desired_to_label_hints :: "(string \<times> string list) list" where
  "desired_to_label_hints =
     [(''Country'', [''Country'']),
      (''State/Province'', [''State'', ''Province'', ''Region'', ''Prefecture'']),
      (''County/District'', [''County'', ''District'', ''Municipality'']),
      (''Settlement type'', [''Settlement type'', ''Type'']),
      (''Incorporated/Founded'', [''Incorporated'', ''Established'', ''Founded'']),
      (''Mayor/Leader'', [''Mayor'', ''Leader'', ''Governing body'']),
      (''Area total'', [''Area total'', ''Area'', ''Area Total'']),
      (''Elevation'', [''Elevation'']),
      (''Population'', [''Population'', ''Population Total'', ''Population ('']),
      (''Demonym'', [''Demonym'']),
      (''Time zone'', [''Time zone'', ''Timezone'']),
      (''Postal code'', [''Postal code'', ''Postcode'', ''ZIP codes'']),
      (''FIPS/GNIS'', [''FIPS code'', ''GNIS feature ID'']),
      (''Coordinates'', [''Coordinates''])]"

text \<open>
  The comprehension \<open>{original_label: original_label.lower() for original_label in
  info.keys()}\<close>.
\<close>

fun lower_index :: "string list \<Rightarrow> dict \<Rightarrow> dict" where
  "lower_index [] acc = acc"
| "lower_index (original_label # rest) acc =
     lower_index rest (dict_set acc original_label (lower original_label))"

definition original_to_lower :: "dict \<Rightarrow> dict" where
  "original_to_lower info = lower_index (dict_keys info) []"

text \<open>
  The innermost loop, over the items of \<open>original_to_lower\<close>: it breaks at the first label
  whose lowered text contains \<open>hint_lower\<close>, with \<open>found_value = info[original_label]\<close>.
  The result is \<open>found_value\<close> after the loop (it is \<open>None\<close> whenever the loop starts).
\<close>

fun scan_labels :: "string \<Rightarrow> (string \<times> string) list \<Rightarrow> dict \<Rightarrow> py_error + string option" where
  "scan_labels hint_lower [] info = Inr None"
| "scan_labels hint_lower ((original_label, lowered) # rest) info =
     (if str_in hint_lower lowered
      then (case dict_index info original_label of
              Inl e \<Rightarrow> Inl e
            | Inr v \<Rightarrow> Inr (Some v))
      else scan_labels hint_lower rest info)"

text \<open>The loop over the hints of one entry: it breaks once \<open>found_value\<close> is set.\<close>

fun scan_hints :: "string list \<Rightarrow> (string \<times> string) list \<Rightarrow> dict \<Rightarrow> py_error + string option" where
  "scan_hints [] otl info = Inr None"
| "scan_hints (hint # hints) otl info =
     (case scan_labels (lower hint) otl info of
        Inl e \<Rightarrow> Inl e
      | Inr (Some found_value) \<Rightarrow> Inr (Some found_value)
      | Inr None \<Rightarrow> scan_hints hints otl info)"

text \<open>The outer loop over the table, threading the dictionary \<open>selected\<close>.\<close>

fun select_loop ::
  "(string \<times> string list) list \<Rightarrow> (string \<times> string) list \<Rightarrow> dict \<Rightarrow> dict \<Rightarrow> py_error + dict" where
  "select_loop [] otl info selected = Inr selected"
| "select_loop ((output_key, label_hints) # rest) otl info selected =
     (case scan_hints label_hints otl info of
        Inl e \<Rightarrow> Inl e
      | Inr None \<Rightarrow> select_loop rest otl info selected
      | Inr (Some found_value) \<Rightarrow>
          select_loop rest otl info (dict_set selected output_key found_value))"

definition select_interesting_fields :: "dict \<Rightarrow> py_error + dict" where
  "select_interesting_fields info =
     select_loop desired_to_label_hints (original_to_lower info) info []"

section \<open>The document tree\<close>

text \<open>
  \<open>BeautifulSoup(html_text, "html.parser")\<close> turns the markup into a tree of
  \<^item> tags, with a name, an attribute dictionary and contents;
  \<^item> text nodes (\<open>NavigableString\<close>);
  \<^item> the text held in a \<open>script\<close>, \<open>style\<close>, \<open>template\<close>, \<open>rt\<close> or \<open>rp\<close> tag, which
    the library keeps in a string class of its own (\<open>Script\<close>, \<open>Stylesheet\<close>,
    \<open>TemplateString\<close>, \<open>RubyTextString\<close>, \<open>RubyParenthesisString\<close>): here a
    \<open>ContainerString\<close> with the name of that tag;
  \<^item> comments, declarations and processing instructions, which \<open>get_text\<close> never
    collects: here \<open>Comment\<close>.

  The parser belongs to the library, so the functions below take it as the parameter
  \<open>bs\<close> and are stated on the tree it returns.
\<close>

datatype node =
    Tag string "(string \<times> string) list" "node list"
  | NavigableString string
  | ContainerString string string
  | Comment string

text \<open>\<open>.descendants\<close>: every node below a tag, in document order.\<close>

fun descendants :: "node \<Rightarrow> node list" where
  "descendants (Tag name attrs contents) = concat (map (\<lambda>c. c # descendants c) contents)"
| "descendants (NavigableString s) = []"
| "descendants (ContainerString container s) = []"
| "descendants (Comment s) = []"

fun is_tag :: "node \<Rightarrow> bool" where
  "is_tag (Tag name attrs contents) = True"
| "is_tag n = False"

fun has_name :: "string \<Rightarrow> node \<Rightarrow> bool" where
  "has_name nm (Tag name attrs contents) = (name = nm)"
| "has_name nm n = False"

fun attr :: "string \<Rightarrow> node \<Rightarrow> string option" where
  "attr a (Tag name attrs contents) = map_of attrs a"
| "attr a n = None"

text \<open>
  \<open>class\<close> is a multi-valued attribute: the library keeps it as the list of its
  whitespace-separated tokens. A search \<open>class_=c\<close> accepts a tag when one token is \<open>c\<close>,
  or when the tokens joined by single spaces are \<open>c\<close>.
\<close>

definition has_class :: "string \<Rightarrow> node \<Rightarrow> bool" where
  "has_class c n =
     (case attr ''class'' n of
        None \<Rightarrow> False
      | Some v \<Rightarrow> c \<in> set (split v) \<or> join '' '' (split v) = c)"

definition has_id :: "string \<Rightarrow> node \<Rightarrow> bool" where
  "has_id i n = (attr ''id'' n = Some i)"

text \<open>\<open>find_all\<close> keeps the tags among the descendants that match; \<open>find\<close> is its first result.\<close>

definition find_all :: "(node \<Rightarrow> bool) \<Rightarrow> node \<Rightarrow> node list" where
  "find_all P n = filter (\<lambda>d. is_tag d \<and> P d) (descendants n)"

definition find_tag :: "(node \<Rightarrow> bool) \<Rightarrow> node \<Rightarrow> node option" where
  "find_tag P n = (case find_all P n of [] \<Rightarrow> None | t # ts \<Rightarrow> Some t)"

text \<open>
  The strings that \<open>get_text\<close> collects below a tag are those of the tag's interesting
  string class: the plain text nodes for an ordinary tag, so that the text of a
  \<open>script\<close>, \<open>style\<close>, \<open>template\<close>, \<open>rt\<close> or \<open>rp\<close> tag inside it is left out; for one of
  these five tags, the strings of its own class only.
\<close>

definition string_containers :: "string list" where
  "string_containers = [''rt'', ''rp'', ''style'', ''script'', ''template'']"

fun tag_name :: "node \<Rightarrow> string" where
  "tag_name (Tag name attrs contents) = name"
| "tag_name n = []"

text \<open>
  The interesting string class of a node: \<open>None\<close> for the plain text nodes, \<open>Some name\<close>
  for the class of the container tag \<open>name\<close>.
\<close>

definition interesting_string_types :: "node \<Rightarrow> string option" where
  "interesting_string_types n =
     (if tag_name n \<in> set string_containers then Some (tag_name n) else None)"

fun text_of :: "string option \<Rightarrow> node \<Rightarrow> string option" where
  "text_of None (NavigableString s) = Some s"
| "text_of (Some nm) (ContainerString container s) = (if container = nm then Some s else None)"
| "text_of types n = None"

text \<open>
  \<open>get_text(separator, strip=True)\<close>: the collected strings, each stripped, the empty
  ones dropped, joined by the separator.
\<close>

definition get_text :: "string \<Rightarrow> node \<Rightarrow> string" where
  "get_text separator n =
     join separator
       (filter (\<lambda>s. s \<noteq> [])
          (map strip
             (List.map_filter (text_of (interesting_string_types n)) (descendants n))))"

section \<open>The infobox parser\<close>

text \<open>\<open>" ".join(cell.get_text(separator=" ", strip=True).split())\<close>\<close>

definition cell_text :: "node \<Rightarrow> string" where
  "cell_text cell = join '' '' (split (get_text '' '' cell))"

text \<open>The three searches for the table, joined by \<open>or\<close> (a tag is always truthy).\<close>

definition find_infobox :: "node \<Rightarrow> node option" where
  "find_infobox soup =
     (case find_tag (\<lambda>t. has_name ''table'' t \<and> has_class ''infobox geography vcard'' t) soup of
        Some t \<Rightarrow> Some t
      | None \<Rightarrow>
         (case find_tag (\<lambda>t. has_name ''table'' t \<and> has_class ''infobox vcard'' t) soup of
            Some t \<Rightarrow> Some t
          | None \<Rightarrow> find_tag (\<lambda>t. has_name ''table'' t \<and> has_class ''infobox'' t) soup))"

text \<open>The body of the loop over the rows.\<close>

definition row_step :: "dict \<Rightarrow> node \<Rightarrow> dict" where
  "row_step info row =
     (case find_tag (has_name ''th'') row of
        None \<Rightarrow> info
      | Some header_cell \<Rightarrow>
         (case find_tag (has_name ''td'') row of
            None \<Rightarrow> info
          | Some data_cell \<Rightarrow>
              (let label = cell_text header_cell;
                   value_text = cell_text data_cell
               in if label \<noteq> [] \<and> value_text \<noteq> []
                  then dict_set info label value_text
                  else info)))"

fun scan_rows :: "node list \<Rightarrow> dict \<Rightarrow> dict" where
  "scan_rows [] info = info"
| "scan_rows (row # rows) info = scan_rows rows (row_step info row)"

text \<open>The dictionary \<open>info\<close> after the block \<open>if infobox is not None\<close>.\<close>

definition table_fields :: "node \<Rightarrow> dict" where
  "table_fields soup =
     (case find_infobox soup of
        None \<Rightarrow> []
      | Some infobox \<Rightarrow> scan_rows (find_all (has_name ''tr'') infobox) [])"

definition parse_infobox :: "(string \<Rightarrow> node) \<Rightarrow> string \<Rightarrow> string option \<times> dict \<times> node" where
  "parse_infobox bs html_text =
     (let soup = bs html_text;
          page_title = (case find_tag (has_id ''firstHeading'') soup of
                          None \<Rightarrow> None
                        | Some title_element \<Rightarrow> Some (get_text [] title_element));
          info = table_fields soup;
          info = (case find_tag (has_class ''geo'') soup of
                    None \<Rightarrow> info
                  | Some geo \<Rightarrow> dict_setdefault info ''Coordinates'' (cell_text geo))
      in (page_title, info, soup))"

text \<open>The second component of the parser's result: the label-to-value mapping.\<close>

definition parsed_fields :: "(string \<Rightarrow> node) \<Rightarrow> string \<Rightarrow> dict" where
  "parsed_fields bs html_text = fst (snd (parse_infobox bs html_text))"

section \<open>The page fetcher\<close>

text \<open>
  \<open>requests.get\<close> either raises an exception of the \<open>RequestException\<close> family or returns a
  response; \<open>raise_for_status\<close> raises \<open>HTTPError\<close> for a status from 400 to 599. The
  network is the parameter \<open>get\<close>, from the URL, the headers and the timeout. An exception
  carries the text that \<open>str\<close> gives for it.
\<close>

datatype request_error = HTTPError string | RequestException string

text \<open>The fields \<open>resp_text\<close> and \<open>resp_url\<close> are the response's \<open>text\<close> and \<open>url\<close>.\<close>

record response =
  status_code :: nat
  reason :: string
  resp_text :: string
  resp_url :: string

type_synonym network = "string \<Rightarrow> (string \<times> string) list \<Rightarrow> nat \<Rightarrow> request_error + response"

definition USER_AGENT :: string where
  "USER_AGENT = ''Mozilla/5.0 (X11; Linux x86_64) AppleWebKit/537.36 '' @
                ''(KHTML, like Gecko) Chrome/124.0 Safari/537.36 LocalInfoScraper/1.0''"

fun str_nat :: "nat \<Rightarrow> string" where
  "str_nat n =
     (if n < 10 then [char_of (48 + n)] else str_nat (n div 10) @ [char_of (48 + n mod 10)])"

definition raise_for_status :: "response \<Rightarrow> request_error + unit" where
  "raise_for_status r =
     (if 400 \<le> status_code r \<and> status_code r < 500
      then Inl (HTTPError (str_nat (status_code r) @ '' Client Error: '' @ reason r @
                           '' for url: '' @ resp_url r))
      else if 500 \<le> status_code r \<and> status_code r < 600
      then Inl (HTTPError (str_nat (status_code r) @ '' Server Error: '' @ reason r @
                           '' for url: '' @ resp_url r))
      else Inr ())"

definition canonical_name :: "string \<Rightarrow> string" where
  "canonical_name city_name = replace city_name (CHR '' '') (CHR ''_'')"

definition request_url :: "string \<Rightarrow> string" where
  "request_url city_name = ''https://en.wikipedia.org/wiki/'' @ canonical_name city_name"

text \<open>
  The fetcher returns its result and the list of the URLs it has requested, appended to
  the calls made before.
\<close>

definition fetch_city_page_html ::
  "network \<Rightarrow> string list \<Rightarrow> string \<Rightarrow> (request_error + string \<times> string) \<times> string list" where
  "fetch_city_page_html get calls city_name =
     (let url = request_url city_name;
          headers = [(''User-Agent'', USER_AGENT)];
          calls = calls @ [url]
      in case get url headers 20 of
           Inl e \<Rightarrow> (Inl e, calls)
         | Inr response \<Rightarrow>
            (case raise_for_status response of
               Inl e \<Rightarrow> (Inl e, calls)
             | Inr u \<Rightarrow> (Inr (resp_text response, resp_url response), calls)))"

section \<open>The command line\<close>

text \<open>
  A run of \<open>main\<close> is the list of the lines it prints, its exit status and the network
  calls it makes. An exception that nothing catches ends the run with status 1 after the
  lines printed so far (the traceback goes to the error stream).
\<close>

record run =
  printed :: "string list"
  exit_status :: nat
  network_calls :: "string list"

definition format_field :: "string \<times> string \<Rightarrow> string" where
  "format_field kv = fst kv @ '': '' @ snd kv"

text \<open>The usage line; character 34 is the double quote around \<open>City Name\<close>.\<close>

definition usage_message :: string where
  "usage_message =
     ''Usage: python scrape_city_infobox.py '' @ [CHR 0x22] @ ''City Name'' @ [CHR 0x22]"

definition main :: "(string \<Rightarrow> node) \<Rightarrow> network \<Rightarrow> string list \<Rightarrow> run" where
  "main bs get argv =
     (if length argv < 2
      then \<lparr>printed = [usage_message], exit_status = 1, network_calls = []\<rparr>
      else
        (let city_name = join '' '' (drop 1 argv)
         in case fetch_city_page_html get [] city_name of
              (Inl (HTTPError http_error), calls) \<Rightarrow>
                \<lparr>printed = [''HTTP error fetching page: '' @ http_error],
                 exit_status = 2, network_calls = calls\<rparr>
            | (Inl (RequestException request_error), calls) \<Rightarrow>
                \<lparr>printed = [''Network error fetching page: '' @ request_error],
                 exit_status = 2, network_calls = calls\<rparr>
            | (Inr (html_text, resolved_url), calls) \<Rightarrow>
                (let (page_title, info_map, soup) = parse_infobox bs html_text;
                     shown_title = (case page_title of
                                      None \<Rightarrow> city_name
                                    | Some t \<Rightarrow> if t = [] then city_name else t);
                     head = [''Title: '' @ shown_title, ''Source: '' @ resolved_url]
                 in if info_map = []
                    then \<lparr>printed = head @
                            [''Could not find an infobox on the page or it is empty.''],
                          exit_status = 0, network_calls = calls\<rparr>
                    else
                      (case select_interesting_fields info_map of
                         Inl e \<Rightarrow> \<lparr>printed = head, exit_status = 1, network_calls = calls\<rparr>
                       | Inr interesting \<Rightarrow>
                           if interesting = []
                           then \<lparr>printed = head @
                                   [''No common local information fields were detected.''],
                                 exit_status = 0, network_calls = calls\<rparr>
                           else \<lparr>printed = head @ map format_field interesting,
                                 exit_status = 0, network_calls = calls\<rparr>))))"

section \<open>Notions used to state the properties\<close>

text \<open>Storing a list of items one after the other, as a loop of assignments does.\<close>

fun dict_set_all :: "dict \<Rightarrow> (string \<times> string) list \<Rightarrow> dict" where
  "dict_set_all d [] = d"
| "dict_set_all d ((k, v) # kvs) = dict_set_all (dict_set d k v) kvs"

text \<open>
  The entry that a row stores, if any: the row has a header cell and a data cell, and the
  texts of both are non-empty.
\<close>

definition row_entry :: "node \<Rightarrow> (string \<times> string) option" where
  "row_entry row =
     (case find_tag (has_name ''th'') row of
        None \<Rightarrow> None
      | Some header_cell \<Rightarrow>
         (case find_tag (has_name ''td'') row of
            None \<Rightarrow> None
          | Some data_cell \<Rightarrow>
              if cell_text header_cell \<noteq> [] \<and> cell_text data_cell \<noteq> []
              then Some (cell_text header_cell, cell_text data_cell)
              else None))"

text \<open>The strings that \<open>get_text\<close> collects below a cell, as they are in the tree.\<close>

definition strings :: "node \<Rightarrow> string list" where
  "strings n = List.map_filter (text_of (interesting_string_types n)) (descendants n)"

subsection \<open>The selector in the words of the specification\<close>

text \<open>
  The canonical field list of the specification, in its order, each output key with its
  match hints.
\<close>

definition canonical_fields :: "(string \<times> string list) list" where
  "canonical_fields =
     [(''Country'', [''Country'']),
      (''State/Province'', [''State'', ''Province'', ''Region'', ''Prefecture'']),
      (''County/District'', [''County'', ''District'', ''Municipality'']),
      (''Settlement type'', [''Settlement type'', ''Type'']),
      (''Incorporated/Founded'', [''Incorporated'', ''Established'', ''Founded'']),
      (''Mayor/Leader'', [''Mayor'', ''Leader'', ''Governing body'']),
      (''Area total'', [''Area total'', ''Area'', ''Area Total'']),
      (''Elevation'', [''Elevation'']),
      (''Population'', [''Population'', ''Population Total'', ''Population ('']),
      (''Demonym'', [''Demonym'']),
      (''Time zone'', [''Time zone'', ''Timezone'']),
      (''Postal code'', [''Postal code'', ''Postcode'', ''ZIP codes'']),
      (''FIPS/GNIS'', [''FIPS code'', ''GNIS feature ID'']),
      (''Coordinates'', [''Coordinates''])]"

text \<open>A hint matches a label when the lowercased label contains the lowercased hint.\<close>

definition label_matches :: "string \<Rightarrow> string \<Rightarrow> bool" where
  "label_matches hint label = sublist (lower hint) (lower label)"

text \<open>The first label of the mapping, in insertion order, that the hint matches.\<close>

definition first_matching_label :: "string \<Rightarrow> dict \<Rightarrow> string option" where
  "first_matching_label hint fs = List.find (label_matches hint) (dict_keys fs)"

text \<open>
  The value of an entry: that of the first matching label of the first hint that matches
  a label at all; none when no hint matches any label.
\<close>

definition entry_value :: "string list \<Rightarrow> dict \<Rightarrow> string option" where
  "entry_value hints fs =
     (case List.find (\<lambda>hint. first_matching_label hint fs \<noteq> None) hints of
        None \<Rightarrow> None
      | Some hint \<Rightarrow>
         (case first_matching_label hint fs of
            None \<Rightarrow> None
          | Some label \<Rightarrow> dict_get fs label))"

text \<open>The selected fields: the entries that have a value, in canonical order.\<close>

definition selected_fields :: "dict \<Rightarrow> dict" where
  "selected_fields fs =
     List.map_filter
       (\<lambda>entry. map_option (Pair (fst entry)) (entry_value (snd entry) fs))
       canonical_fields"

subsection \<open>Example documents\<close>

text \<open>A page with a heading and nothing else.\<close>

definition heading_only_page :: node where
  "heading_only_page =
     Tag ''[document]'' []
       [Tag ''h1'' [(''id'', ''firstHeading'')] [NavigableString ''Atlantis'']]"

text \<open>A page without any table, with a coordinate marker that carries text.\<close>

definition geo_only_page :: node where
  "geo_only_page =
     Tag ''[document]'' []
       [Tag ''span'' [(''class'', ''geo'')] [NavigableString ''35.6897; 139.6922'']]"

text \<open>A page without any table, with a coordinate marker that carries no text.\<close>

definition empty_geo_page :: node where
  "empty_geo_page = Tag ''[document]'' [] [Tag ''span'' [(''class'', ''geo'')] []]"

text \<open>
  The rows of an infobox: one that no canonical field matches, a population row with
  untidy whitespace (character 10 is the line feed), two elevation rows with different
  values, and a time zone row.
\<close>

definition website_row :: node where
  "website_row =
     Tag ''tr'' []
       [Tag ''th'' [] [NavigableString ''Website''],
        Tag ''td'' [] [NavigableString ''metro.tokyo.lg.jp'']]"

definition population_row :: node where
  "population_row =
     Tag ''tr'' []
       [Tag ''th'' [] [NavigableString ''Population''],
        Tag ''td'' [] [NavigableString (''  38,000,000  '' @ [CHR 0x0A] @ '' '')]]"

definition elevation_row_metres :: node where
  "elevation_row_metres =
     Tag ''tr'' []
       [Tag ''th'' [] [NavigableString ''Elevation''],
        Tag ''td'' [] [NavigableString ''40 m'']]"

definition elevation_row_feet :: node where
  "elevation_row_feet =
     Tag ''tr'' []
       [Tag ''th'' [] [NavigableString ''Elevation''],
        Tag ''td'' [] [NavigableString ''131 ft'']]"

definition time_zone_row :: node where
  "time_zone_row =
     Tag ''tr'' []
       [Tag ''th'' [] [NavigableString ''Time zone''],
        Tag ''td'' [] [NavigableString ''UTC+9'']]"

definition city_infobox :: node where
  "city_infobox =
     Tag ''table'' [(''class'', ''infobox ib-settlement vcard'')]
       [website_row, population_row, elevation_row_metres, elevation_row_feet, time_zone_row]"

text \<open>A page with a heading and that infobox.\<close>

definition city_page :: node where
  "city_page =
     Tag ''[document]'' []
       [Tag ''h1'' [(''id'', ''firstHeading'')] [NavigableString ''Tokyo''], city_infobox]"

text \<open>
  A page whose infobox has a population density row above the population row, and one
  whose infobox has a second population row below it.
\<close>

definition density_row :: node where
  "density_row =
     Tag ''tr'' []
       [Tag ''th'' [] [NavigableString ''Population density''],
        Tag ''td'' [] [NavigableString ''6,363/km2'']]"

definition density_infobox :: node where
  "density_infobox = Tag ''table'' [(''class'', ''infobox'')] [density_row, population_row]"

definition density_page :: node where
  "density_page = Tag ''[document]'' [] [density_infobox]"

definition recount_row :: node where
  "recount_row =
     Tag ''tr'' []
       [Tag ''th'' [] [NavigableString ''Population''],
        Tag ''td'' [] [NavigableString ''37,400,000'']]"

definition recount_infobox :: node where
  "recount_infobox = Tag ''table'' [(''class'', ''infobox'')] [population_row, recount_row]"

definition recount_page :: node where
  "recount_page = Tag ''[document]'' [] [recount_infobox]"

text \<open>A page with a coordinates row in the table and a coordinate marker outside it.\<close>

definition city_page_with_geo :: node where
  "city_page_with_geo =
     Tag ''[document]'' []
       [Tag ''table'' [(''class'', ''infobox'')]
          [Tag ''tr'' []
             [Tag ''th'' [] [NavigableString ''Coordinates''],
              Tag ''td'' [] [NavigableString ''35 N 139 E'']]],
        Tag ''span'' [(''class'', ''geo'')] [NavigableString ''35.6897; 139.6922'']]"

text \<open>A page whose infobox holds only a row that no canonical field matches.\<close>

definition website_page :: node where
  "website_page =
     Tag ''[document]'' []
       [Tag ''table'' [(''class'', ''infobox'')]
          [Tag ''tr'' []
             [Tag ''th'' [] [NavigableString ''Website''],
              Tag ''td'' [] [NavigableString ''example.org'']]]]"

text \<open>A parser that returns the given tree whatever the markup.\<close>

definition parser_giving :: "node \<Rightarrow> string \<Rightarrow> node" where
  "parser_giving tree html_text = tree"

text \<open>Networks: one that answers every request with the given status, one that fails.\<close>

definition answering :: "nat \<Rightarrow> string \<Rightarrow> network" where
  "answering status why =
     (\<lambda>u headers timeout.
        Inr \<lparr>status_code = status, reason = why, resp_text = ''<html>'', resp_url = u\<rparr>)"

definition unreachable :: network where
  "unreachable = (\<lambda>u headers timeout. Inl (RequestException ''Connection refused''))"

section \<open>Searches and dictionaries: basic facts\<close>

lemma find_tag_Some: "find_tag P n = Some t \<Longrightarrow> t \<in> set (descendants n) \<and> is_tag t \<and> P t"
proof -
  assume "find_tag P n = Some t"
  then obtain ts where "filter (\<lambda>d. is_tag d \<and> P d) (descendants n) = t # ts"
    by (auto simp: find_tag_def find_all_def split: list.splits)
  then have "t \<in> set (filter (\<lambda>d. is_tag d \<and> P d) (descendants n))"
    by (metis list.set_intros(1))
  then show ?thesis by simp
qed

lemma find_tag_None: "find_tag P n = None \<longleftrightarrow> (\<forall>t\<in>set (descendants n). \<not> (is_tag t \<and> P t))"
proof -
  have "find_tag P n = None \<longleftrightarrow> filter (\<lambda>d. is_tag d \<and> P d) (descendants n) = []"
    by (simp add: find_tag_def find_all_def split: list.splits)
  then show ?thesis by (simp add: filter_empty_conv)
qed

lemma dict_keys_set:
  "dict_keys (dict_set d k v) = (if k \<in> set (dict_keys d) then dict_keys d else dict_keys d @ [k])"
  by (induction d) (force simp: dict_keys_def)+

lemma dict_get_set: "dict_get (dict_set d k v) k' = (if k' = k then Some v else dict_get d k')"
  by (induction d) (auto simp: dict_get_def)

lemma dict_set_fresh: "k \<notin> set (dict_keys d) \<Longrightarrow> dict_set d k v = d @ [(k, v)]"
  by (induction d) (auto simp: dict_keys_def)

lemma dict_get_None: "dict_get d k = None \<longleftrightarrow> k \<notin> set (dict_keys d)"
  by (simp add: dict_get_def dict_keys_def map_of_eq_None_iff)

section \<open>The parser and the command line\<close>

lemma parsed_fields_geo:
  "find_tag (has_class ''geo'') (bs html_text) = Some geo \<Longrightarrow>
     parsed_fields bs html_text =
       dict_setdefault (table_fields (bs html_text)) ''Coordinates'' (cell_text geo)"
  by (simp add: parsed_fields_def parse_infobox_def Let_def)

lemma parsed_fields_no_geo:
  "find_tag (has_class ''geo'') (bs html_text) = None \<Longrightarrow>
     parsed_fields bs html_text = table_fields (bs html_text)"
  by (simp add: parsed_fields_def parse_infobox_def Let_def)

text \<open>
  Claim C10. Whenever the document holds a tag with the class \<open>geo\<close>, the mapping the
  parser returns has the key \<open>Coordinates\<close>, and so is not empty, whether or not an infobox
  table was found.
\<close>

theorem geo_marker_gives_coordinates:
  assumes "\<exists>t\<in>set (descendants (bs html_text)). is_tag t \<and> has_class ''geo'' t"
  shows "''Coordinates'' \<in> set (dict_keys (parsed_fields bs html_text))
         \<and> parsed_fields bs html_text \<noteq> []"
proof -
  from assms have "find_tag (has_class ''geo'') (bs html_text) \<noteq> None"
    by (simp add: find_tag_None)
  then obtain geo where g: "find_tag (has_class ''geo'') (bs html_text) = Some geo"
    by auto
  have "''Coordinates'' \<in> set (dict_keys (parsed_fields bs html_text))"
    by (simp add: parsed_fields_geo [of bs html_text geo, OF g] dict_setdefault_def dict_keys_set)
  then show ?thesis by (auto simp: dict_keys_def)
qed

theorem geo_marker_gives_coordinates_witness:
  "(\<exists>t\<in>set (descendants (parser_giving geo_only_page ''<span>'')). is_tag t \<and> has_class ''geo'' t)
   \<and> ''Coordinates'' \<in> set (dict_keys (parsed_fields (parser_giving geo_only_page) ''<span>''))
   \<and> parsed_fields (parser_giving geo_only_page) ''<span>'' \<noteq> []"
proof -
  have h: "\<exists>t\<in>set (descendants (parser_giving geo_only_page ''<span>'')). is_tag t \<and> has_class ''geo'' t"
    by code_simp
  from geo_marker_gives_coordinates [of "parser_giving geo_only_page" "''<span>''", OF h] h show ?thesis by simp
qed

text \<open>
  Claim C5. When the document holds a tag with the class \<open>geo\<close> (the search returns the
  first one), the parser stores that tag's normalized text under \<open>Coordinates\<close> exactly
  when the table scan left no entry under that key, appending it after the table's entries;
  when the table scan did store \<open>Coordinates\<close>, the result is the table's mapping,
  unchanged, and the marker's text is ignored.
\<close>

theorem geo_marker_fills_missing_coordinates:
  assumes "find_tag (has_class ''geo'') (bs html_text) = Some geo"
  shows "parsed_fields bs html_text =
           (if ''Coordinates'' \<in> set (dict_keys (table_fields (bs html_text)))
            then table_fields (bs html_text)
            else table_fields (bs html_text) @ [(''Coordinates'', cell_text geo)])
         \<and> dict_get (parsed_fields bs html_text) ''Coordinates'' =
           (case dict_get (table_fields (bs html_text)) ''Coordinates'' of
              Some v \<Rightarrow> Some v
            | None \<Rightarrow> Some (cell_text geo))"
proof (cases "''Coordinates'' \<in> set (dict_keys (table_fields (bs html_text)))")
  case True
  then obtain v where "dict_get (table_fields (bs html_text)) ''Coordinates'' = Some v"
    using dict_get_None [of "table_fields (bs html_text)" "''Coordinates''"] by auto
  with True show ?thesis
    by (simp add: parsed_fields_geo [of bs html_text geo, OF assms] dict_setdefault_def)
next
  case False
  then have none: "dict_get (table_fields (bs html_text)) ''Coordinates'' = None"
    by (simp add: dict_get_None)
  have stored: "parsed_fields bs html_text =
                  dict_set (table_fields (bs html_text)) ''Coordinates'' (cell_text geo)"
    using False by (simp add: parsed_fields_geo [of bs html_text geo, OF assms] dict_setdefault_def)
  have "parsed_fields bs html_text = table_fields (bs html_text) @ [(''Coordinates'', cell_text geo)]"
    using False by (simp add: stored dict_set_fresh)
  moreover have "dict_get (parsed_fields bs html_text) ''Coordinates'' = Some (cell_text geo)"
    by (simp add: stored dict_get_set)
  ultimately show ?thesis using False none by simp
qed

theorem geo_marker_fills_missing_coordinates_witness:
  "find_tag (has_class ''geo'') (parser_giving city_page_with_geo ''<table>'') =
     Some (Tag ''span'' [(''class'', ''geo'')] [NavigableString ''35.6897; 139.6922''])
   \<and> parsed_fields (parser_giving city_page_with_geo) ''<table>'' = [(''Coordinates'', ''35 N 139 E'')]
   \<and> find_tag (has_class ''geo'') (parser_giving geo_only_page ''<span>'') =
     Some (Tag ''span'' [(''class'', ''geo'')] [NavigableString ''35.6897; 139.6922''])
   \<and> parsed_fields (parser_giving geo_only_page) ''<span>'' = [(''Coordinates'', ''35.6897; 139.6922'')]"
proof -
  let ?geo = "Tag ''span'' [(''class'', ''geo'')] [NavigableString ''35.6897; 139.6922'']"
  have h1: "find_tag (has_class ''geo'') (parser_giving city_page_with_geo ''<table>'') = Some ?geo"
    by code_simp
  have h2: "find_tag (has_class ''geo'') (parser_giving geo_only_page ''<span>'') = Some ?geo"
    by code_simp
  have t1: "table_fields (parser_giving city_page_with_geo ''<table>'') = [(''Coordinates'', ''35 N 139 E'')]"
    by code_simp
  have t2: "table_fields (parser_giving geo_only_page ''<span>'') = []"
    by code_simp
  have c: "cell_text ?geo = ''35.6897; 139.6922''"
    by code_simp
  from geo_marker_fills_missing_coordinates [of "parser_giving city_page_with_geo" "''<table>''" ?geo, OF h1] t1
  have r1: "parsed_fields (parser_giving city_page_with_geo) ''<table>'' = [(''Coordinates'', ''35 N 139 E'')]"
    by (simp add: dict_keys_def)
  from geo_marker_fills_missing_coordinates [of "parser_giving geo_only_page" "''<span>''" ?geo, OF h2] t2 c
  have r2: "parsed_fields (parser_giving geo_only_page) ''<span>'' = [(''Coordinates'', ''35.6897; 139.6922'')]"
    by (simp add: dict_keys_def)
  from h1 h2 r1 r2 show ?thesis by simp
qed

text \<open>
  Claim C3. The claim says that no value of the returned mapping is empty, the
  \<open>Coordinates\<close> entry taken from the coordinate marker included. The rows of the table
  are guarded by \<open>if label and value_text\<close>, but the marker's text is stored without such
  a test: on a page whose marker carries no text the parser returns \<open>Coordinates\<close> with
  the empty string.
\<close>

theorem empty_geo_marker_stores_empty_value:
  "parsed_fields (parser_giving empty_geo_page) ''<span class=geo></span>'' = [(''Coordinates'', [])]"
  by code_simp

text \<open>
  Claim C2 as stated fails: on a page without any table but with a coordinate marker, no
  table pattern matches, and yet the parser returns a \<open>Coordinates\<close> entry, which the
  selector passes on.
\<close>

theorem no_table_but_geo_counterexample:
  "find_infobox (parser_giving geo_only_page ''<span>'') = None
   \<and> parsed_fields (parser_giving geo_only_page) ''<span>'' = [(''Coordinates'', ''35.6897; 139.6922'')]
   \<and> select_interesting_fields (parsed_fields (parser_giving geo_only_page) ''<span>'') =
       Inr [(''Coordinates'', ''35.6897; 139.6922'')]"
  by code_simp

lemma has_name_is_tag: "has_name nm t \<Longrightarrow> is_tag t"
  by (cases t) simp_all

lemma select_nothing: "select_interesting_fields [] = Inr []"
  by code_simp

text \<open>
  Claim C2, amended. For every document in which none of the three table-class patterns
  matches any table and no tag carries the class \<open>geo\<close>, the parser returns the empty
  mapping, and the selector applied to it returns the empty mapping.
\<close>

theorem no_table_no_geo_gives_nothing:
  assumes no_table:
    "\<forall>t\<in>set (descendants (bs html_text)).
       \<not> (has_name ''table'' t \<and>
          (has_class ''infobox geography vcard'' t \<or> has_class ''infobox vcard'' t \<or>
           has_class ''infobox'' t))"
    and no_geo: "\<forall>t\<in>set (descendants (bs html_text)). \<not> (is_tag t \<and> has_class ''geo'' t)"
  shows "parsed_fields bs html_text = []
         \<and> select_interesting_fields (parsed_fields bs html_text) = Inr []"
proof -
  have "find_infobox (bs html_text) = None"
    using no_table by (auto simp: find_infobox_def find_tag_None split: option.splits)
  then have "table_fields (bs html_text) = []"
    by (simp add: table_fields_def)
  moreover have "find_tag (has_class ''geo'') (bs html_text) = None"
    using no_geo by (simp add: find_tag_None)
  ultimately have "parsed_fields bs html_text = []"
    by (simp add: parsed_fields_no_geo)
  then show ?thesis by (simp add: select_nothing)
qed

theorem no_table_no_geo_gives_nothing_witness:
  "find_infobox (parser_giving heading_only_page ''<h1>'') = None
   \<and> find_tag (has_class ''geo'') (parser_giving heading_only_page ''<h1>'') = None
   \<and> parsed_fields (parser_giving heading_only_page) ''<h1>'' = []
   \<and> select_interesting_fields (parsed_fields (parser_giving heading_only_page) ''<h1>'') = Inr []"
proof -
  have h1: "\<forall>t\<in>set (descendants (parser_giving heading_only_page ''<h1>'')).
       \<not> (has_name ''table'' t \<and>
          (has_class ''infobox geography vcard'' t \<or> has_class ''infobox vcard'' t \<or>
           has_class ''infobox'' t))"
    by code_simp
  have h2: "\<forall>t\<in>set (descendants (parser_giving heading_only_page ''<h1>'')). \<not> (is_tag t \<and> has_class ''geo'' t)"
    by code_simp
  have no_infobox: "find_infobox (parser_giving heading_only_page ''<h1>'') = None"
    by code_simp
  have no_geo: "find_tag (has_class ''geo'') (parser_giving heading_only_page ''<h1>'') = None"
    by code_simp
  note result = no_table_no_geo_gives_nothing
      [of "parser_giving heading_only_page" "''<h1>''", OF h1 h2]
  show ?thesis
    by (intro conjI no_infobox no_geo conjunct1 [OF result] conjunct2 [OF result])
qed

lemma fetch_outcome:
  "fst (fetch_city_page_html get calls city_name) =
     (case get (request_url city_name) [(''User-Agent'', USER_AGENT)] 20 of
        Inl e \<Rightarrow> Inl e
      | Inr r \<Rightarrow>
         (case raise_for_status r of
            Inl e \<Rightarrow> Inl e
          | Inr u \<Rightarrow> Inr (resp_text r, resp_url r)))"
  by (simp add: fetch_city_page_html_def Let_def split: sum.splits)

lemma main_http_error:
  "\<not> length argv < 2 \<Longrightarrow>
   fst (fetch_city_page_html get [] (join '' '' (drop 1 argv))) = Inl (HTTPError m) \<Longrightarrow>
   printed (main bs get argv) = [''HTTP error fetching page: '' @ m] \<and>
   exit_status (main bs get argv) = 2"
  by (cases "fetch_city_page_html get [] (join '' '' (drop 1 argv))") (simp add: main_def)

lemma main_network_error:
  "\<not> length argv < 2 \<Longrightarrow>
   fst (fetch_city_page_html get [] (join '' '' (drop 1 argv))) = Inl (RequestException m) \<Longrightarrow>
   printed (main bs get argv) = [''Network error fetching page: '' @ m] \<and>
   exit_status (main bs get argv) = 2"
  by (cases "fetch_city_page_html get [] (join '' '' (drop 1 argv))") (simp add: main_def)

lemma main_no_infobox:
  "\<not> length argv < 2 \<Longrightarrow>
   fst (fetch_city_page_html get [] (join '' '' (drop 1 argv))) = Inr (html_text, resolved_url) \<Longrightarrow>
   parsed_fields bs html_text = [] \<Longrightarrow>
   last (printed (main bs get argv)) = ''Could not find an infobox on the page or it is empty.'' \<and>
   exit_status (main bs get argv) = 0"
  by (cases "fetch_city_page_html get [] (join '' '' (drop 1 argv))";
      cases "parse_infobox bs html_text")
     (simp add: main_def parsed_fields_def Let_def)

lemma main_no_common_fields:
  "\<not> length argv < 2 \<Longrightarrow>
   fst (fetch_city_page_html get [] (join '' '' (drop 1 argv))) = Inr (html_text, resolved_url) \<Longrightarrow>
   parsed_fields bs html_text \<noteq> [] \<Longrightarrow>
   select_interesting_fields (parsed_fields bs html_text) = Inr [] \<Longrightarrow>
   last (printed (main bs get argv)) = ''No common local information fields were detected.'' \<and>
   exit_status (main bs get argv) = 0"
  by (cases "fetch_city_page_html get [] (join '' '' (drop 1 argv))";
      cases "parse_infobox bs html_text")
     (simp add: main_def parsed_fields_def Let_def)

lemma raise_for_status_error:
  "400 \<le> status_code r \<Longrightarrow> status_code r < 600 \<Longrightarrow> \<exists>m. raise_for_status r = Inl (HTTPError m)"
  by (simp add: raise_for_status_def)

lemma raise_for_status_ok:
  "\<not> (400 \<le> status_code r \<and> status_code r < 600) \<Longrightarrow> raise_for_status r = Inr ()"
  by (auto simp: raise_for_status_def)

lemma diagnostics_differ:
  "''HTTP error fetching page: '' @ m \<noteq> ''Network error fetching page: '' @ m'"
  by simp

text \<open>
  Claim C7. With a place name on the command line: when the request fails with an
  exception of the network family, the program prints the one line
  \<open>Network error fetching page: ...\<close> and ends with status 2; when the server answers
  with a status from 400 to 599 (or the request raises an HTTP error), it prints the one
  line \<open>HTTP error fetching page: ...\<close> and ends with status 2; the two lines always
  differ. When the page is fetched and no field is parsed, the last line printed is the
  "could not find an infobox" message and the status is 0; when fields are parsed and
  none is selected, the last line is the "no common fields" message and the status is 0;
  the two messages differ.
\<close>

theorem transport_failure_and_no_data_exits:
  assumes args: "\<not> length argv < 2"
  shows
    "(\<forall>m. get (request_url (join '' '' (drop 1 argv))) [(''User-Agent'', USER_AGENT)] 20 =
            Inl (RequestException m) \<longrightarrow>
          printed (main bs get argv) = [''Network error fetching page: '' @ m] \<and>
          exit_status (main bs get argv) = 2)
     \<and> (\<forall>m. get (request_url (join '' '' (drop 1 argv))) [(''User-Agent'', USER_AGENT)] 20 =
            Inl (HTTPError m) \<longrightarrow>
          printed (main bs get argv) = [''HTTP error fetching page: '' @ m] \<and>
          exit_status (main bs get argv) = 2)
     \<and> (\<forall>r. get (request_url (join '' '' (drop 1 argv))) [(''User-Agent'', USER_AGENT)] 20 = Inr r \<and>
            400 \<le> status_code r \<and> status_code r < 600 \<longrightarrow>
          (\<exists>m. raise_for_status r = Inl (HTTPError m) \<and>
               printed (main bs get argv) = [''HTTP error fetching page: '' @ m]) \<and>
          exit_status (main bs get argv) = 2)
     \<and> (\<forall>m m'. ''HTTP error fetching page: '' @ m \<noteq> ''Network error fetching page: '' @ m')
     \<and> (\<forall>r. get (request_url (join '' '' (drop 1 argv))) [(''User-Agent'', USER_AGENT)] 20 = Inr r \<and>
            \<not> (400 \<le> status_code r \<and> status_code r < 600) \<and>
            parsed_fields bs (resp_text r) = [] \<longrightarrow>
          last (printed (main bs get argv)) =
            ''Could not find an infobox on the page or it is empty.'' \<and>
          exit_status (main bs get argv) = 0)
     \<and> (\<forall>r. get (request_url (join '' '' (drop 1 argv))) [(''User-Agent'', USER_AGENT)] 20 = Inr r \<and>
            \<not> (400 \<le> status_code r \<and> status_code r < 600) \<and>
            parsed_fields bs (resp_text r) \<noteq> [] \<and>
            select_interesting_fields (parsed_fields bs (resp_text r)) = Inr [] \<longrightarrow>
          last (printed (main bs get argv)) =
            ''No common local information fields were detected.'' \<and>
          exit_status (main bs get argv) = 0)
     \<and> ''Could not find an infobox on the page or it is empty.'' \<noteq>
       ''No common local information fields were detected.''"
proof -
  let ?city = "join '' '' (drop 1 argv)"
  let ?answer = "get (request_url ?city) [(''User-Agent'', USER_AGENT)] 20"
  let ?fetched = "fst (fetch_city_page_html get [] ?city)"
  have network: "\<forall>m. ?answer = Inl (RequestException m) \<longrightarrow>
                   printed (main bs get argv) = [''Network error fetching page: '' @ m] \<and>
                   exit_status (main bs get argv) = 2"
  proof (intro allI impI)
    fix m assume "?answer = Inl (RequestException m)"
    then have "?fetched = Inl (RequestException m)" by (simp add: fetch_outcome)
    with args show "printed (main bs get argv) = [''Network error fetching page: '' @ m] \<and>
                    exit_status (main bs get argv) = 2"
      by (rule main_network_error)
  qed
  have http: "\<forall>m. ?answer = Inl (HTTPError m) \<longrightarrow>
                printed (main bs get argv) = [''HTTP error fetching page: '' @ m] \<and>
                exit_status (main bs get argv) = 2"
  proof (intro allI impI)
    fix m assume "?answer = Inl (HTTPError m)"
    then have "?fetched = Inl (HTTPError m)" by (simp add: fetch_outcome)
    with args show "printed (main bs get argv) = [''HTTP error fetching page: '' @ m] \<and>
                    exit_status (main bs get argv) = 2"
      by (rule main_http_error)
  qed
  have status: "\<forall>r. ?answer = Inr r \<and> 400 \<le> status_code r \<and> status_code r < 600 \<longrightarrow>
                  (\<exists>m. raise_for_status r = Inl (HTTPError m) \<and>
                       printed (main bs get argv) = [''HTTP error fetching page: '' @ m]) \<and>
                  exit_status (main bs get argv) = 2"
  proof (intro allI impI)
    fix r assume r: "?answer = Inr r \<and> 400 \<le> status_code r \<and> status_code r < 600"
    then obtain m where m: "raise_for_status r = Inl (HTTPError m)"
      using raise_for_status_error [of r] by blast
    with r have "?fetched = Inl (HTTPError m)" by (simp add: fetch_outcome)
    with args have "printed (main bs get argv) = [''HTTP error fetching page: '' @ m] \<and>
                    exit_status (main bs get argv) = 2"
      by (rule main_http_error)
    with m show "(\<exists>m. raise_for_status r = Inl (HTTPError m) \<and>
                      printed (main bs get argv) = [''HTTP error fetching page: '' @ m]) \<and>
                 exit_status (main bs get argv) = 2"
      by blast
  qed
  have differ: "\<forall>m m'. ''HTTP error fetching page: '' @ m \<noteq> ''Network error fetching page: '' @ m'"
    by simp
  have no_infobox: "\<forall>r. ?answer = Inr r \<and> \<not> (400 \<le> status_code r \<and> status_code r < 600) \<and>
                      parsed_fields bs (resp_text r) = [] \<longrightarrow>
                    last (printed (main bs get argv)) =
                      ''Could not find an infobox on the page or it is empty.'' \<and>
                    exit_status (main bs get argv) = 0"
  proof (intro allI impI)
    fix r
    assume r: "?answer = Inr r \<and> \<not> (400 \<le> status_code r \<and> status_code r < 600) \<and>
               parsed_fields bs (resp_text r) = []"
    then have "?fetched = Inr (resp_text r, resp_url r)"
      by (simp add: fetch_outcome raise_for_status_ok)
    moreover from r have "parsed_fields bs (resp_text r) = []" by simp
    ultimately show "last (printed (main bs get argv)) =
                       ''Could not find an infobox on the page or it is empty.'' \<and>
                     exit_status (main bs get argv) = 0"
      using args main_no_infobox [of argv get "resp_text r" "resp_url r" bs] by simp
  qed
  have no_common: "\<forall>r. ?answer = Inr r \<and> \<not> (400 \<le> status_code r \<and> status_code r < 600) \<and>
                     parsed_fields bs (resp_text r) \<noteq> [] \<and>
                     select_interesting_fields (parsed_fields bs (resp_text r)) = Inr [] \<longrightarrow>
                   last (printed (main bs get argv)) =
                     ''No common local information fields were detected.'' \<and>
                   exit_status (main bs get argv) = 0"
  proof (intro allI impI)
    fix r
    assume r: "?answer = Inr r \<and> \<not> (400 \<le> status_code r \<and> status_code r < 600) \<and>
               parsed_fields bs (resp_text r) \<noteq> [] \<and>
               select_interesting_fields (parsed_fields bs (resp_text r)) = Inr []"
    then have "?fetched = Inr (resp_text r, resp_url r)"
      by (simp add: fetch_outcome raise_for_status_ok)
    moreover from r have "parsed_fields bs (resp_text r) \<noteq> []"
      and "select_interesting_fields (parsed_fields bs (resp_text r)) = Inr []" by simp_all
    ultimately show "last (printed (main bs get argv)) =
                       ''No common local information fields were detected.'' \<and>
                     exit_status (main bs get argv) = 0"
      using args main_no_common_fields [of argv get "resp_text r" "resp_url r" bs] by simp
  qed
  have messages: "''Could not find an infobox on the page or it is empty.'' \<noteq>
                  ''No common local information fields were detected.''"
    by simp
  show ?thesis
    by (intro conjI network http status differ no_infobox no_common messages)
qed

theorem transport_failure_and_no_data_exits_witness:
  "\<not> length [''scrape_city_infobox.py'', ''Tokyo''] < 2
   \<and> printed (main (parser_giving heading_only_page) unreachable [''scrape_city_infobox.py'', ''Tokyo'']) =
       [''Network error fetching page: Connection refused'']
   \<and> exit_status (main (parser_giving heading_only_page) unreachable [''scrape_city_infobox.py'', ''Tokyo'']) = 2
   \<and> exit_status (main (parser_giving heading_only_page) (answering 404 ''Not Found'')
         [''scrape_city_infobox.py'', ''Tokyo'']) = 2
   \<and> parsed_fields (parser_giving heading_only_page) ''<html>'' = []
   \<and> last (printed (main (parser_giving heading_only_page) (answering 200 ''OK'')
         [''scrape_city_infobox.py'', ''Tokyo''])) =
       ''Could not find an infobox on the page or it is empty.''
   \<and> exit_status (main (parser_giving heading_only_page) (answering 200 ''OK'')
         [''scrape_city_infobox.py'', ''Tokyo'']) = 0
   \<and> parsed_fields (parser_giving website_page) ''<html>'' = [(''Website'', ''example.org'')]
   \<and> select_interesting_fields [(''Website'', ''example.org'')] = Inr []
   \<and> last (printed (main (parser_giving website_page) (answering 200 ''OK'')
         [''scrape_city_infobox.py'', ''Tokyo''])) =
       ''No common local information fields were detected.''
   \<and> exit_status (main (parser_giving website_page) (answering 200 ''OK'')
         [''scrape_city_infobox.py'', ''Tokyo'']) = 0"
proof -
  let ?argv = "[''scrape_city_infobox.py'', ''Tokyo'']"
  have args: "\<not> length ?argv < 2" by simp
  have none: "parsed_fields (parser_giving heading_only_page) ''<html>'' = []"
    by code_simp
  have some: "parsed_fields (parser_giving website_page) ''<html>'' = [(''Website'', ''example.org'')]"
    by code_simp
  have unmatched: "select_interesting_fields [(''Website'', ''example.org'')] = Inr []"
    by code_simp
  have refused:
    "printed (main (parser_giving heading_only_page) unreachable ?argv) =
       [''Network error fetching page: Connection refused'']
     \<and> exit_status (main (parser_giving heading_only_page) unreachable ?argv) = 2"
    using transport_failure_and_no_data_exits [of ?argv unreachable "parser_giving heading_only_page", OF args]
    by (simp add: unreachable_def)
  have not_found:
    "exit_status (main (parser_giving heading_only_page) (answering 404 ''Not Found'') ?argv) = 2"
    using transport_failure_and_no_data_exits
            [of ?argv "answering 404 ''Not Found''" "parser_giving heading_only_page", OF args]
    by (simp add: answering_def)
  have no_infobox:
    "last (printed (main (parser_giving heading_only_page) (answering 200 ''OK'') ?argv)) =
       ''Could not find an infobox on the page or it is empty.''
     \<and> exit_status (main (parser_giving heading_only_page) (answering 200 ''OK'') ?argv) = 0"
    using transport_failure_and_no_data_exits
            [of ?argv "answering 200 ''OK''" "parser_giving heading_only_page", OF args] none
    by (simp add: answering_def)
  have no_common:
    "last (printed (main (parser_giving website_page) (answering 200 ''OK'') ?argv)) =
       ''No common local information fields were detected.''
     \<and> exit_status (main (parser_giving website_page) (answering 200 ''OK'') ?argv) = 0"
    using transport_failure_and_no_data_exits
            [of ?argv "answering 200 ''OK''" "parser_giving website_page", OF args] some unmatched
    by (simp add: answering_def)
  show ?thesis
    by (intro conjI args none some unmatched
          conjunct1 [OF refused] conjunct2 [OF refused] not_found
          conjunct1 [OF no_infobox] conjunct2 [OF no_infobox]
          conjunct1 [OF no_common] conjunct2 [OF no_common])
qed

section \<open>Scanning the rows\<close>

lemma dict_get_append:
  "dict_get (d @ e) k = (case dict_get d k of Some v \<Rightarrow> Some v | None \<Rightarrow> dict_get e k)"
  by (simp add: dict_get_def map_add_def split: option.splits)

lemma dict_get_set_all:
  "dict_get (dict_set_all d kvs) k =
     (case dict_get (rev kvs) k of Some v \<Rightarrow> Some v | None \<Rightarrow> dict_get d k)"
proof (induction kvs arbitrary: d)
  case Nil
  then show ?case by (simp add: dict_get_def)
next
  case (Cons kv kvs)
  obtain k' v' where kv: "kv = (k', v')" by (cases kv)
  show ?case
    by (simp add: kv Cons.IH dict_get_set dict_get_append split: option.splits)
       (simp add: dict_get_def)
qed

lemma row_step_entry:
  "row_step info row =
     (case row_entry row of None \<Rightarrow> info | Some (label, v) \<Rightarrow> dict_set info label v)"
  by (simp add: row_step_def row_entry_def Let_def split: option.splits)

lemma scan_rows_set_all:
  "scan_rows rows info = dict_set_all info (List.map_filter row_entry rows)"
proof (induction rows arbitrary: info)
  case Nil
  then show ?case by (simp add: List.map_filter_simps)
next
  case (Cons row rows)
  then show ?case
    by (cases "row_entry row") (auto simp: List.map_filter_simps row_step_entry)
qed

lemma dict_get_setdefault:
  "dict_get (dict_setdefault d k v) k' =
     (case dict_get d k' of Some x \<Rightarrow> Some x | None \<Rightarrow> if k' = k then Some v else None)"
proof (cases "k \<in> set (dict_keys d)")
  case True
  then have "dict_get d k \<noteq> None" by (simp add: dict_get_None)
  with True show ?thesis by (auto simp: dict_setdefault_def split: option.splits)
next
  case False
  then have "dict_get d k = None" by (simp add: dict_get_None)
  with False show ?thesis by (auto simp: dict_setdefault_def dict_get_set split: option.splits)
qed

lemma parsed_fields_keeps_table:
  "dict_get (table_fields (bs html_text)) k = Some v \<Longrightarrow>
     dict_get (parsed_fields bs html_text) k = Some v"
  by (cases "find_tag (has_class ''geo'') (bs html_text)")
     (simp_all add: parsed_fields_def parse_infobox_def Let_def dict_get_setdefault)

lemma map_filter_append:
  "List.map_filter f (xs @ ys) = List.map_filter f xs @ List.map_filter f ys"
  by (simp add: List.map_filter_def)

lemma dict_get_absent: "k \<notin> fst ` set d \<Longrightarrow> dict_get d k = None"
  by (simp add: dict_get_def map_of_eq_None_iff)

lemma last_entry_wins:
  assumes entry: "row_entry row = Some (label, v)"
    and later: "\<forall>r\<in>set later. \<forall>v'. row_entry r \<noteq> Some (label, v')"
  shows "dict_get (scan_rows (earlier @ row # later) info) label = Some v"
proof -
  let ?after = "List.map_filter row_entry later"
  have "label \<notin> fst ` set ?after"
    using later by (auto simp: List.map_filter_def)
  then have "label \<notin> fst ` set (rev ?after)" by simp
  then have none: "dict_get (rev ?after) label = None" by (rule dict_get_absent)
  have "List.map_filter row_entry (earlier @ row # later) =
          List.map_filter row_entry earlier @ (label, v) # ?after"
    using entry by (simp add: map_filter_append List.map_filter_simps)
  then show ?thesis
    using none by (simp add: scan_rows_set_all dict_get_set_all dict_get_append)
       (simp add: dict_get_def)
qed

section \<open>The selector\<close>

lemma find_append:
  "List.find P (xs @ ys) = (case List.find P xs of None \<Rightarrow> List.find P ys | Some x \<Rightarrow> Some x)"
  by (induction xs) simp_all

lemma find_repeated:
  assumes "k \<in> set xs"
  shows "List.find P (xs @ k # ys) = List.find P (xs @ ys)"
proof (cases "List.find P xs")
  case None
  with assms have "\<not> P k" by (auto simp: find_None_iff)
  with None show ?thesis by (simp add: find_append)
next
  case (Some x)
  then show ?thesis by (simp add: find_append)
qed

lemma find_keys_set_all:
  "List.find P (dict_keys (dict_set_all d kvs)) = List.find P (dict_keys d @ map fst kvs)"
proof (induction kvs arbitrary: d)
  case Nil
  then show ?case by simp
next
  case (Cons kv kvs)
  obtain k v where kv: "kv = (k, v)" by (cases kv)
  show ?case
  proof (cases "k \<in> set (dict_keys d)")
    case True
    then show ?thesis
      using find_repeated [of k "dict_keys d" P "map fst kvs"]
      by (simp add: kv Cons.IH dict_keys_set)
  next
    case False
    then show ?thesis by (simp add: kv Cons.IH dict_keys_set)
  qed
qed

lemma set_dict_set: "set (dict_set d k v) \<subseteq> insert (k, v) (set d)"
  by (induction d) (auto split: if_splits)

lemma set_dict_set_all: "set (dict_set_all d kvs) \<subseteq> set d \<union> set kvs"
proof (induction kvs arbitrary: d)
  case Nil
  then show ?case by simp
next
  case (Cons kv kvs)
  obtain k v where kv: "kv = (k, v)" by (cases kv)
  have "set (dict_set_all (dict_set d k v) kvs) \<subseteq> set (dict_set d k v) \<union> set kvs"
    by (rule Cons.IH)
  also have "\<dots> \<subseteq> insert (k, v) (set d) \<union> set kvs"
    using set_dict_set [of d k v] by blast
  finally show ?case by (auto simp: kv)
qed

lemma lower_index_set_all:
  "lower_index ks acc = dict_set_all acc (map (\<lambda>k. (k, lower k)) ks)"
  by (induction ks arbitrary: acc) simp_all

lemma original_to_lower_items:
  "(k, lowered) \<in> set (original_to_lower info) \<Longrightarrow>
     lowered = lower k \<and> k \<in> set (dict_keys info)"
  using set_dict_set_all [of "[]" "map (\<lambda>k. (k, lower k)) (dict_keys info)"]
  by (auto simp: original_to_lower_def lower_index_set_all)

lemma original_to_lower_find:
  "List.find P (dict_keys (original_to_lower info)) = List.find P (dict_keys info)"
  by (simp add: original_to_lower_def lower_index_set_all find_keys_set_all)
     (simp add: dict_keys_def comp_def)

lemma scan_labels_find:
  assumes "\<forall>(k, lowered)\<in>set items. lowered = lower k \<and> k \<in> set (dict_keys info)"
  shows "scan_labels hint_lower items info =
           Inr (case List.find (\<lambda>k. str_in hint_lower (lower k)) (map fst items) of
                  None \<Rightarrow> None
                | Some k \<Rightarrow> dict_get info k)"
  using assms
proof (induction items)
  case Nil
  then show ?case by simp
next
  case (Cons item items)
  obtain k lowered where item: "item = (k, lowered)" by (cases item)
  from Cons.prems have low: "lowered = lower k" and key: "k \<in> set (dict_keys info)"
    by (auto simp: item)
  from key obtain v where v: "dict_get info k = Some v"
    using dict_get_None [of info k] by auto
  from Cons.prems have "\<forall>(k, lowered)\<in>set items. lowered = lower k \<and> k \<in> set (dict_keys info)"
    by simp
  then have IH: "scan_labels hint_lower items info =
           Inr (case List.find (\<lambda>k. str_in hint_lower (lower k)) (map fst items) of
                  None \<Rightarrow> None
                | Some k \<Rightarrow> dict_get info k)"
    by (rule Cons.IH)
  show ?case
    by (simp add: item low v IH dict_index_def)
qed

lemma scan_labels_first_matching_label:
  "scan_labels (lower hint) (original_to_lower info) info =
     Inr (case first_matching_label hint info of None \<Rightarrow> None | Some label \<Rightarrow> dict_get info label)"
proof -
  have "\<forall>(k, lowered)\<in>set (original_to_lower info). lowered = lower k \<and> k \<in> set (dict_keys info)"
    using original_to_lower_items by blast
  then have "scan_labels (lower hint) (original_to_lower info) info =
           Inr (case List.find (\<lambda>k. str_in (lower hint) (lower k))
                       (map fst (original_to_lower info)) of
                  None \<Rightarrow> None
                | Some k \<Rightarrow> dict_get info k)"
    by (rule scan_labels_find)
  moreover have "List.find (\<lambda>k. str_in (lower hint) (lower k)) (map fst (original_to_lower info)) =
                 first_matching_label hint info"
    using original_to_lower_find [of "\<lambda>k. str_in (lower hint) (lower k)" info]
    by (simp add: first_matching_label_def label_matches_def [abs_def] str_in_def [abs_def]
        dict_keys_def)
  ultimately show ?thesis by simp
qed

lemma first_matching_label_key:
  "first_matching_label hint info = Some label \<Longrightarrow> label \<in> set (dict_keys info)"
  by (auto simp: first_matching_label_def find_Some_iff)

lemma first_matching_label_value:
  "first_matching_label hint info = Some label \<Longrightarrow> \<exists>v. dict_get info label = Some v"
  using first_matching_label_key [of hint info label] dict_get_None [of info label] by auto

lemma entry_value_Cons:
  "entry_value (hint # hints) info =
     (case first_matching_label hint info of
        None \<Rightarrow> entry_value hints info
      | Some label \<Rightarrow> dict_get info label)"
  by (simp add: entry_value_def split: option.splits)

lemma scan_hints_entry_value:
  "scan_hints hints (original_to_lower info) info = Inr (entry_value hints info)"
proof (induction hints)
  case Nil
  then show ?case by (simp add: entry_value_def)
next
  case (Cons hint hints)
  show ?case
  proof (cases "first_matching_label hint info")
    case None
    then show ?thesis
      by (simp add: scan_labels_first_matching_label entry_value_Cons Cons.IH)
  next
    case (Some label)
    then obtain v where "dict_get info label = Some v"
      using first_matching_label_value by blast
    with Some show ?thesis
      by (simp add: scan_labels_first_matching_label entry_value_Cons)
  qed
qed

lemma select_loop_set_all:
  "select_loop table (original_to_lower info) info selected =
     Inr (dict_set_all selected
            (List.map_filter
               (\<lambda>entry. map_option (Pair (fst entry)) (entry_value (snd entry) info)) table))"
proof (induction table arbitrary: selected)
  case Nil
  then show ?case by (simp add: List.map_filter_simps)
next
  case (Cons entry table)
  obtain output_key label_hints where entry: "entry = (output_key, label_hints)"
    by (cases entry)
  show ?case
    by (cases "entry_value label_hints info")
       (simp_all add: entry scan_hints_entry_value Cons.IH List.map_filter_simps)
qed

lemma dict_set_all_fresh:
  "distinct (map fst kvs) \<Longrightarrow> fst ` set kvs \<inter> set (dict_keys d) = {} \<Longrightarrow>
     dict_set_all d kvs = d @ kvs"
proof (induction kvs arbitrary: d)
  case Nil
  then show ?case by simp
next
  case (Cons kv kvs)
  obtain k v where kv: "kv = (k, v)" by (cases kv)
  from Cons.prems have fresh: "k \<notin> set (dict_keys d)" by (auto simp: kv)
  then have step: "dict_set d k v = d @ [(k, v)]" by (rule dict_set_fresh)
  from Cons.prems have "distinct (map fst kvs)"
    and "fst ` set kvs \<inter> set (dict_keys (d @ [(k, v)])) = {}"
    by (auto simp: kv dict_keys_def)
  then have "dict_set_all (d @ [(k, v)]) kvs = (d @ [(k, v)]) @ kvs" by (rule Cons.IH)
  then show ?case by (simp add: kv step)
qed

lemma map_filter_keys:
  "map fst (List.map_filter (\<lambda>entry. map_option (Pair (fst entry)) (f entry)) table) =
     map fst (filter (\<lambda>entry. f entry \<noteq> None) table)"
  by (induction table) (auto simp: List.map_filter_simps split: option.splits)

lemma canonical_keys_distinct: "distinct (map fst canonical_fields)"
  by (simp add: canonical_fields_def)

lemma table_is_canonical: "desired_to_label_hints = canonical_fields"
  by (simp add: desired_to_label_hints_def canonical_fields_def)

lemma select_is_selected_fields:
  "select_interesting_fields info = Inr (selected_fields info)"
proof -
  let ?items = "List.map_filter
       (\<lambda>entry. map_option (Pair (fst entry)) (entry_value (snd entry) info)) canonical_fields"
  have "distinct (map fst ?items)"
    using canonical_keys_distinct by (simp add: map_filter_keys distinct_map_filter)
  then have "dict_set_all [] ?items = ?items"
    using dict_set_all_fresh [of ?items "[]"] by (simp add: dict_keys_def)
  then show ?thesis
    by (simp add: select_interesting_fields_def table_is_canonical select_loop_set_all
        selected_fields_def)
qed

lemma dict_wf_set: "dict_wf d \<Longrightarrow> dict_wf (dict_set d k v)"
  by (simp add: dict_wf_def dict_keys_set [unfolded dict_keys_def])

lemma dict_wf_set_all: "dict_wf d \<Longrightarrow> dict_wf (dict_set_all d kvs)"
proof (induction kvs arbitrary: d)
  case Nil
  then show ?case by simp
next
  case (Cons kv kvs)
  then show ?case by (cases kv) (simp add: dict_wf_set)
qed

text \<open>The keys of the mapping the parser returns are distinct.\<close>

lemma parsed_fields_wf: "dict_wf (parsed_fields bs html_text)"
proof -
  have empty: "dict_wf []" by (simp add: dict_wf_def)
  have table: "dict_wf (table_fields (bs html_text))"
    by (cases "find_infobox (bs html_text)")
       (simp_all add: table_fields_def scan_rows_set_all dict_wf_set_all [OF empty] empty)
  show ?thesis
    by (cases "find_tag (has_class ''geo'') (bs html_text)")
       (simp_all add: parsed_fields_def parse_infobox_def Let_def dict_setdefault_def table
          dict_wf_set)
qed

text \<open>Every entry that the scan of the table stores has a non-empty label and value.\<close>

lemma row_entry_nonempty: "row_entry row = Some (label, v) \<Longrightarrow> label \<noteq> [] \<and> v \<noteq> []"
  by (auto simp: row_entry_def split: option.splits if_splits)

lemma table_fields_nonempty:
  assumes "(label, v) \<in> set (table_fields soup)"
  shows "label \<noteq> [] \<and> v \<noteq> []"
proof (cases "find_infobox soup")
  case None
  with assms show ?thesis by (simp add: table_fields_def)
next
  case (Some infobox)
  let ?items = "List.map_filter row_entry (find_all (has_name ''tr'') infobox)"
  from assms Some have "(label, v) \<in> set (dict_set_all [] ?items)"
    by (simp add: table_fields_def scan_rows_set_all)
  then have "(label, v) \<in> set ?items"
    using set_dict_set_all [of "[]" ?items] by auto
  then obtain row where "row_entry row = Some (label, v)"
    by (auto simp: List.map_filter_def)
  then show ?thesis by (rule row_entry_nonempty)
qed

lemma entry_value_None_iff:
  "entry_value hints info = None \<longleftrightarrow> (\<forall>hint\<in>set hints. first_matching_label hint info = None)"
proof (induction hints)
  case Nil
  then show ?case by (simp add: entry_value_def)
next
  case (Cons hint hints)
  show ?case
  proof (cases "first_matching_label hint info")
    case None
    then show ?thesis by (simp add: entry_value_Cons Cons.IH)
  next
    case (Some label)
    then obtain v where "dict_get info label = Some v"
      using first_matching_label_value by blast
    with Some show ?thesis by (simp add: entry_value_Cons)
  qed
qed

lemma selected_fields_keys:
  "dict_keys (selected_fields info) =
     map fst (filter (\<lambda>entry. entry_value (snd entry) info \<noteq> None) canonical_fields)"
  by (simp add: selected_fields_def dict_keys_def map_filter_keys)

lemma governing_body_matches: "label_matches ''Governing body'' ''Governing body''"
  by (simp add: label_matches_def)

lemma governing_body_selected:
  assumes "''Governing body'' \<in> set (dict_keys info)"
  shows "''Mayor/Leader'' \<in> set (dict_keys (selected_fields info))"
proof -
  from assms have "first_matching_label ''Governing body'' info \<noteq> None"
    using governing_body_matches by (auto simp: first_matching_label_def find_None_iff)
  then have "entry_value [''Mayor'', ''Leader'', ''Governing body''] info \<noteq> None"
    by (simp add: entry_value_None_iff)
  moreover have "(''Mayor/Leader'', [''Mayor'', ''Leader'', ''Governing body'']) \<in> set canonical_fields"
    by (simp add: canonical_fields_def)
  ultimately have "(''Mayor/Leader'', [''Mayor'', ''Leader'', ''Governing body''])
      \<in> set (filter (\<lambda>entry. entry_value (snd entry) info \<noteq> None) canonical_fields)"
    by simp
  then have "fst (''Mayor/Leader'', [''Mayor'', ''Leader'', ''Governing body''])
      \<in> set (map fst (filter (\<lambda>entry. entry_value (snd entry) info \<noteq> None) canonical_fields))"
    by (simp only: set_map) (rule imageI)
  then show ?thesis by (simp add: selected_fields_keys)
qed

lemma governing_body_alone:
  "select_interesting_fields [(''Governing body'', v)] = Inr [(''Mayor/Leader'', v)]"
  by code_simp

lemma governing_body_no_mayor:
  "\<not> str_in (lower ''Mayor'') (lower ''Governing body'') \<and>
   \<not> str_in (lower ''Leader'') (lower ''Governing body'')"
  by code_simp

text \<open>
  Claim C1. For every label-to-value mapping the selector returns, without raising, the
  mapping that the specification describes: for each of the 14 canonical entries, in
  order, the value of the first label (in insertion order) that contains the first hint
  (in the entry's order) contained in any label, compared in lower case, and no entry when
  no hint is contained in any label. The table of the code is the canonical list. A label
  \<open>Governing body\<close> makes the selector emit \<open>Mayor/Leader\<close>, although it contains neither
  \<open>mayor\<close> nor \<open>leader\<close>; alone, it yields exactly that entry with its value.
\<close>

theorem selector_takes_first_match:
  "select_interesting_fields info = Inr (selected_fields info)
   \<and> desired_to_label_hints = canonical_fields
   \<and> length canonical_fields = 14
   \<and> (''Governing body'' \<in> set (dict_keys info) \<longrightarrow>
        ''Mayor/Leader'' \<in> set (dict_keys (selected_fields info)))
   \<and> select_interesting_fields [(''Governing body'', v)] = Inr [(''Mayor/Leader'', v)]
   \<and> \<not> str_in (lower ''Mayor'') (lower ''Governing body'')
   \<and> \<not> str_in (lower ''Leader'') (lower ''Governing body'')"
proof -
  have "length canonical_fields = 14" by (simp add: canonical_fields_def)
  then show ?thesis
    using select_is_selected_fields [of info] table_is_canonical governing_body_selected [of info]
      governing_body_alone [of v] governing_body_no_mayor
    by (intro conjI impI) (assumption | erule conjunct1 | erule conjunct2)+
qed

theorem selector_takes_first_match_witness:
  "''Governing body'' \<in> set (dict_keys [(''Governing body'', ''City Council'')])
   \<and> select_interesting_fields [(''Governing body'', ''City Council'')] =
       Inr (selected_fields [(''Governing body'', ''City Council'')])
   \<and> ''Mayor/Leader'' \<in> set (dict_keys (selected_fields [(''Governing body'', ''City Council'')]))
   \<and> selected_fields [(''Governing body'', ''City Council'')] = [(''Mayor/Leader'', ''City Council'')]"
proof -
  have h: "''Governing body'' \<in> set (dict_keys [(''Governing body'', ''City Council'')])"
    by (simp add: dict_keys_def)
  have e: "selected_fields [(''Governing body'', ''City Council'')] = [(''Mayor/Leader'', ''City Council'')]"
    by code_simp
  note t = selector_takes_first_match [of "[(''Governing body'', ''City Council'')]" "''City Council''"]
  from t have a: "select_interesting_fields [(''Governing body'', ''City Council'')] =
       Inr (selected_fields [(''Governing body'', ''City Council'')])"
    by (rule conjunct1)
  from t h have b: "''Mayor/Leader'' \<in> set (dict_keys (selected_fields [(''Governing body'', ''City Council'')]))"
    by blast
  show ?thesis by (intro conjI h a b e)
qed

section \<open>Rows of the infobox\<close>

lemma table_fields_items:
  "find_infobox soup = Some infobox \<Longrightarrow>
     table_fields soup =
       dict_set_all [] (List.map_filter row_entry (find_all (has_name ''tr'') infobox))"
  by (simp add: table_fields_def scan_rows_set_all)

lemma selected_fields_get:
  assumes "(k, hints) \<in> set canonical_fields"
  shows "dict_get (selected_fields info) k = entry_value hints info"
proof -
  have "distinct (map fst table) \<Longrightarrow> (k, hints) \<in> set table \<Longrightarrow>
        map_of (List.map_filter
                  (\<lambda>entry. map_option (Pair (fst entry)) (entry_value (snd entry) info)) table) k =
        entry_value hints info" for table
  proof (induction table)
    case Nil
    then show ?case by simp
  next
    case (Cons entry table)
    show ?case
    proof (cases "entry = (k, hints)")
      case True
      with Cons.prems have "k \<notin> fst ` set table" by auto
      then have "k \<notin> set (map fst (filter (\<lambda>entry. entry_value (snd entry) info \<noteq> None) table))"
        by auto
      moreover have "fst ` set (List.map_filter
                  (\<lambda>entry. map_option (Pair (fst entry)) (entry_value (snd entry) info)) table) =
                set (map fst (filter (\<lambda>entry. entry_value (snd entry) info \<noteq> None) table))"
        using map_filter_keys [of "\<lambda>entry. entry_value (snd entry) info" table]
        by (metis set_map)
      ultimately have "k \<notin> fst ` set (List.map_filter
                  (\<lambda>entry. map_option (Pair (fst entry)) (entry_value (snd entry) info)) table)"
        by (simp only: not_False_eq_True)
      then have "map_of (List.map_filter
                  (\<lambda>entry. map_option (Pair (fst entry)) (entry_value (snd entry) info)) table) k = None"
        by (simp add: map_of_eq_None_iff)
      with True show ?thesis
        by (cases "entry_value hints info") (simp_all add: List.map_filter_simps)
    next
      case False
      with Cons.prems have in_table: "(k, hints) \<in> set table" by auto
      from Cons.prems have dist: "distinct (map fst table)" and out: "fst entry \<notin> fst ` set table"
        by simp_all
      from in_table have "k \<in> fst ` set table" by (metis fst_conv image_eqI)
      with out have "fst entry \<noteq> k" by blast
      with in_table dist show ?thesis
        using Cons.IH by (cases "entry_value (snd entry) info") (simp_all add: List.map_filter_simps)
    qed
  qed
  from this [OF canonical_keys_distinct assms] show ?thesis
    by (simp add: dict_get_def selected_fields_def)
qed

lemma find_keys_setdefault:
  "List.find P (dict_keys d) = Some x \<Longrightarrow> List.find P (dict_keys (dict_setdefault d k v)) = Some x"
  by (simp add: dict_setdefault_def dict_keys_set find_append)

lemma parsed_fields_first_key:
  assumes "List.find P (dict_keys (table_fields (bs html_text))) = Some x"
  shows "List.find P (dict_keys (parsed_fields bs html_text)) = Some x"
  using assms
  by (cases "find_tag (has_class ''geo'') (bs html_text)")
     (simp_all add: parsed_fields_def parse_infobox_def Let_def find_keys_setdefault)

lemma cell_text_strings:
  "cell_text cell =
     join '' '' (split (join '' '' (filter (\<lambda>s. s \<noteq> []) (map strip (strings cell)))))"
  by (simp add: cell_text_def get_text_def strings_def)

lemma population_header: "strings cell = [''Population''] \<Longrightarrow> cell_text cell = ''Population''"
proof -
  assume "strings cell = [''Population'']"
  moreover have "join '' '' (split (join '' '' (filter (\<lambda>s. s \<noteq> []) (map strip [''Population'']))))
                 = ''Population''"
    by code_simp
  ultimately show ?thesis by (simp only: cell_text_strings)
qed

lemma population_data:
  "strings cell = [''  38,000,000  '' @ [CHR 0x0A] @ '' ''] \<Longrightarrow> cell_text cell = ''38,000,000''"
proof -
  assume "strings cell = [''  38,000,000  '' @ [CHR 0x0A] @ '' '']"
  moreover have "join '' '' (split (join '' '' (filter (\<lambda>s. s \<noteq> [])
                   (map strip [''  38,000,000  '' @ [CHR 0x0A] @ '' '']))))
                 = ''38,000,000''"
    by code_simp
  ultimately show ?thesis by (simp only: cell_text_strings)
qed

lemma population_matches: "label_matches ''Population'' ''Population''"
  by (simp add: label_matches_def)

text \<open>
  Claim C4. In a matched infobox table, take the last row of the scan that stores an entry
  under a label (a row with a header cell and a data cell whose normalized texts are both
  non-empty): the mapping the parser returns holds that row's value under the label,
  whatever values the earlier rows stored under the same label.
\<close>

theorem last_duplicate_row_wins:
  assumes infobox: "find_infobox (bs html_text) = Some infobox"
    and rows: "find_all (has_name ''tr'') infobox = earlier @ row # later"
    and entry: "row_entry row = Some (label, v)"
    and later: "\<forall>r\<in>set later. \<forall>v'. row_entry r \<noteq> Some (label, v')"
  shows "dict_get (parsed_fields bs html_text) label = Some v"
proof -
  have "table_fields (bs html_text) = scan_rows (earlier @ row # later) []"
    using infobox rows by (simp add: table_fields_def)
  then have "dict_get (table_fields (bs html_text)) label = Some v"
    using last_entry_wins [OF entry later] by simp
  then show ?thesis by (rule parsed_fields_keeps_table)
qed

theorem last_duplicate_row_wins_witness:
  "find_infobox (parser_giving city_page ''<table>'') = Some city_infobox
   \<and> find_all (has_name ''tr'') city_infobox =
       [website_row, population_row, elevation_row_metres] @ elevation_row_feet # [time_zone_row]
   \<and> row_entry elevation_row_metres = Some (''Elevation'', ''40 m'')
   \<and> row_entry elevation_row_feet = Some (''Elevation'', ''131 ft'')
   \<and> row_entry time_zone_row = Some (''Time zone'', ''UTC+9'')
   \<and> dict_get (parsed_fields (parser_giving city_page) ''<table>'') ''Elevation'' = Some ''131 ft''"
proof -
  have infobox: "find_infobox (parser_giving city_page ''<table>'') = Some city_infobox"
    by code_simp
  have rows: "find_all (has_name ''tr'') city_infobox =
       [website_row, population_row, elevation_row_metres] @ elevation_row_feet # [time_zone_row]"
    by code_simp
  have metres: "row_entry elevation_row_metres = Some (''Elevation'', ''40 m'')"
    by code_simp
  have feet: "row_entry elevation_row_feet = Some (''Elevation'', ''131 ft'')"
    by code_simp
  have zone: "row_entry time_zone_row = Some (''Time zone'', ''UTC+9'')"
    by code_simp
  then have later: "\<forall>r\<in>set [time_zone_row]. \<forall>v'. row_entry r \<noteq> Some (''Elevation'', v')"
    by simp
  have stored: "dict_get (parsed_fields (parser_giving city_page) ''<table>'') ''Elevation'' = Some ''131 ft''"
    by (rule last_duplicate_row_wins
          [of "parser_giving city_page" "''<table>''", OF infobox rows feet later])
  show ?thesis by (intro conjI infobox rows metres feet zone stored)
qed

text \<open>
  Claim C6 as stated fails on pages that hold the row it describes. With a population
  density row above it, the parser stores \<open>38,000,000\<close> under \<open>Population\<close>, but the
  selector emits the density under the canonical key \<open>Population\<close>: the label
  \<open>Population density\<close> comes first and contains the hint. With a second population row
  below it, the value the parser returns under \<open>Population\<close> is that of the later row.
\<close>

theorem population_row_counterexample:
  "find_infobox (parser_giving density_page ''<table>'') = Some density_infobox
   \<and> find_all (has_name ''tr'') density_infobox = [density_row, population_row]
   \<and> find_infobox (parser_giving recount_page ''<table>'') = Some recount_infobox
   \<and> find_all (has_name ''tr'') recount_infobox = [population_row, recount_row]
   \<and> find_tag (has_name ''th'') population_row = Some (Tag ''th'' [] [NavigableString ''Population''])
   \<and> find_tag (has_name ''td'') population_row =
       Some (Tag ''td'' [] [NavigableString (''  38,000,000  '' @ [CHR 0x0A] @ '' '')])
   \<and> strings (Tag ''th'' [] [NavigableString ''Population'']) = [''Population'']
   \<and> strings (Tag ''td'' [] [NavigableString (''  38,000,000  '' @ [CHR 0x0A] @ '' '')]) =
       [''  38,000,000  '' @ [CHR 0x0A] @ '' '']
   \<and> parsed_fields (parser_giving density_page) ''<table>'' =
       [(''Population density'', ''6,363/km2''), (''Population'', ''38,000,000'')]
   \<and> select_interesting_fields (parsed_fields (parser_giving density_page) ''<table>'') =
       Inr [(''Population'', ''6,363/km2'')]
   \<and> parsed_fields (parser_giving recount_page) ''<table>'' = [(''Population'', ''37,400,000'')]"
proof -
  have density_table: "find_infobox (parser_giving density_page ''<table>'') = Some density_infobox"
    by code_simp
  have density_rows: "find_all (has_name ''tr'') density_infobox = [density_row, population_row]"
    by code_simp
  have recount_table: "find_infobox (parser_giving recount_page ''<table>'') = Some recount_infobox"
    by code_simp
  have recount_rows: "find_all (has_name ''tr'') recount_infobox = [population_row, recount_row]"
    by code_simp
  have header: "find_tag (has_name ''th'') population_row =
                  Some (Tag ''th'' [] [NavigableString ''Population''])"
    by code_simp
  have data: "find_tag (has_name ''td'') population_row =
                Some (Tag ''td'' [] [NavigableString (''  38,000,000  '' @ [CHR 0x0A] @ '' '')])"
    by code_simp
  have header_text: "strings (Tag ''th'' [] [NavigableString ''Population'']) = [''Population'']"
    by code_simp
  have data_text:
    "strings (Tag ''td'' [] [NavigableString (''  38,000,000  '' @ [CHR 0x0A] @ '' '')]) =
       [''  38,000,000  '' @ [CHR 0x0A] @ '' '']"
    by code_simp
  have density_fields: "parsed_fields (parser_giving density_page) ''<table>'' =
       [(''Population density'', ''6,363/km2''), (''Population'', ''38,000,000'')]"
    by code_simp
  have density_selected:
    "select_interesting_fields (parsed_fields (parser_giving density_page) ''<table>'') =
       Inr [(''Population'', ''6,363/km2'')]"
    by code_simp
  have recount_fields:
    "parsed_fields (parser_giving recount_page) ''<table>'' = [(''Population'', ''37,400,000'')]"
    by code_simp
  show ?thesis
    by (intro conjI density_table density_rows recount_table recount_rows header data
          header_text data_text density_fields density_selected recount_fields)
qed

text \<open>
  Claim C6, amended. Let a row of the matched table have the header cell text
  \<open>Population\<close> and the data cell text \<open>38,000,000\<close> wrapped in blanks and a line feed.
  When no later row stores an entry under \<open>Population\<close>, the mapping the parser returns
  holds \<open>38,000,000\<close> under the key \<open>Population\<close>; when in addition no earlier row stores
  a label that contains \<open>population\<close> (compared in lower case), the selector emits that
  value under the canonical key \<open>Population\<close>.
\<close>

theorem population_row_parsed_and_selected:
  assumes infobox: "find_infobox (bs html_text) = Some infobox"
    and rows: "find_all (has_name ''tr'') infobox = earlier @ row # later"
    and header: "find_tag (has_name ''th'') row = Some header_cell"
    and data: "find_tag (has_name ''td'') row = Some data_cell"
    and header_text: "strings header_cell = [''Population'']"
    and data_text: "strings data_cell = [''  38,000,000  '' @ [CHR 0x0A] @ '' '']"
    and later: "\<forall>r\<in>set later. \<forall>v. row_entry r \<noteq> Some (''Population'', v)"
  shows "dict_get (parsed_fields bs html_text) ''Population'' = Some ''38,000,000''
         \<and> ((\<forall>r\<in>set earlier. \<forall>label v. row_entry r = Some (label, v) \<longrightarrow>
                \<not> label_matches ''Population'' label) \<longrightarrow>
            (\<exists>selected. select_interesting_fields (parsed_fields bs html_text) = Inr selected
               \<and> dict_get selected ''Population'' = Some ''38,000,000''))"
proof -
  let ?info = "parsed_fields bs html_text"
  let ?before = "List.map_filter row_entry earlier"
  let ?after = "List.map_filter row_entry later"
  have entry: "row_entry row = Some (''Population'', ''38,000,000'')"
    using header data population_header [OF header_text] population_data [OF data_text]
    by (simp add: row_entry_def)
  have "table_fields (bs html_text) = scan_rows (earlier @ row # later) []"
    using infobox rows by (simp add: table_fields_def)
  then have "dict_get (table_fields (bs html_text)) ''Population'' = Some ''38,000,000''"
    using last_entry_wins [OF entry later] by simp
  then have stored: "dict_get ?info ''Population'' = Some ''38,000,000''"
    by (rule parsed_fields_keeps_table)
  have items: "List.map_filter row_entry (find_all (has_name ''tr'') infobox) =
                 ?before @ (''Population'', ''38,000,000'') # ?after"
    using entry by (simp add: rows map_filter_append List.map_filter_simps)
  have selected:
    "\<exists>selected. select_interesting_fields ?info = Inr selected
       \<and> dict_get selected ''Population'' = Some ''38,000,000''"
    if earlier: "\<forall>r\<in>set earlier. \<forall>label v. row_entry r = Some (label, v) \<longrightarrow>
                   \<not> label_matches ''Population'' label"
  proof -
    have "\<forall>label\<in>set (map fst ?before). \<not> label_matches ''Population'' label"
      using earlier by (auto simp: List.map_filter_def)
    then have "List.find (label_matches ''Population'') (map fst ?before) = None"
      by (simp add: find_None_iff)
    then have "List.find (label_matches ''Population'')
                 (dict_keys [] @ map fst (?before @ (''Population'', ''38,000,000'') # ?after)) =
               Some ''Population''"
      using population_matches by (simp add: find_append dict_keys_def)
    then have "List.find (label_matches ''Population'') (dict_keys (table_fields (bs html_text))) =
               Some ''Population''"
      by (simp only: table_fields_items [OF infobox] items find_keys_set_all)
    then have "List.find (label_matches ''Population'') (dict_keys ?info) = Some ''Population''"
      by (rule parsed_fields_first_key)
    then have "first_matching_label ''Population'' ?info = Some ''Population''"
      by (simp add: first_matching_label_def)
    then have "entry_value [''Population'', ''Population Total'', ''Population (''] ?info =
               Some ''38,000,000''"
      using stored by (simp add: entry_value_Cons)
    moreover have "(''Population'', [''Population'', ''Population Total'', ''Population (''])
                    \<in> set canonical_fields"
      by (simp add: canonical_fields_def)
    ultimately have "dict_get (selected_fields ?info) ''Population'' = Some ''38,000,000''"
      by (simp add: selected_fields_get)
    with select_is_selected_fields [of ?info] show ?thesis by blast
  qed
  from stored selected show ?thesis by blast
qed

theorem population_row_parsed_and_selected_witness:
  "find_infobox (parser_giving city_page ''<table>'') = Some city_infobox
   \<and> find_all (has_name ''tr'') city_infobox =
       [website_row] @ population_row # [elevation_row_metres, elevation_row_feet, time_zone_row]
   \<and> find_tag (has_name ''th'') population_row = Some (Tag ''th'' [] [NavigableString ''Population''])
   \<and> find_tag (has_name ''td'') population_row =
       Some (Tag ''td'' [] [NavigableString (''  38,000,000  '' @ [CHR 0x0A] @ '' '')])
   \<and> strings (Tag ''th'' [] [NavigableString ''Population'']) = [''Population'']
   \<and> strings (Tag ''td'' [] [NavigableString (''  38,000,000  '' @ [CHR 0x0A] @ '' '')]) =
       [''  38,000,000  '' @ [CHR 0x0A] @ '' '']
   \<and> row_entry elevation_row_metres = Some (''Elevation'', ''40 m'')
   \<and> row_entry elevation_row_feet = Some (''Elevation'', ''131 ft'')
   \<and> row_entry time_zone_row = Some (''Time zone'', ''UTC+9'')
   \<and> row_entry website_row = Some (''Website'', ''metro.tokyo.lg.jp'')
   \<and> \<not> label_matches ''Population'' ''Website''
   \<and> dict_get (parsed_fields (parser_giving city_page) ''<table>'') ''Population'' =
       Some ''38,000,000''
   \<and> (\<exists>selected.
         select_interesting_fields (parsed_fields (parser_giving city_page) ''<table>'') =
           Inr selected
         \<and> dict_get selected ''Population'' = Some ''38,000,000'')"
proof -
  let ?th = "Tag ''th'' [] [NavigableString ''Population'']"
  let ?td = "Tag ''td'' [] [NavigableString (''  38,000,000  '' @ [CHR 0x0A] @ '' '')]"
  have infobox: "find_infobox (parser_giving city_page ''<table>'') = Some city_infobox"
    by code_simp
  have rows: "find_all (has_name ''tr'') city_infobox =
       [website_row] @ population_row # [elevation_row_metres, elevation_row_feet, time_zone_row]"
    by code_simp
  have header: "find_tag (has_name ''th'') population_row = Some ?th"
    by code_simp
  have data: "find_tag (has_name ''td'') population_row = Some ?td"
    by code_simp
  have header_text: "strings ?th = [''Population'']"
    by code_simp
  have data_text: "strings ?td = [''  38,000,000  '' @ [CHR 0x0A] @ '' '']"
    by code_simp
  have metres: "row_entry elevation_row_metres = Some (''Elevation'', ''40 m'')"
    and feet: "row_entry elevation_row_feet = Some (''Elevation'', ''131 ft'')"
    and zone: "row_entry time_zone_row = Some (''Time zone'', ''UTC+9'')"
    by code_simp+
  then have later: "\<forall>r\<in>set [elevation_row_metres, elevation_row_feet, time_zone_row].
         \<forall>v. row_entry r \<noteq> Some (''Population'', v)"
    by simp
  have website: "row_entry website_row = Some (''Website'', ''metro.tokyo.lg.jp'')"
    by code_simp
  have unrelated: "\<not> label_matches ''Population'' ''Website''"
    by code_simp
  from website unrelated have earlier: "\<forall>r\<in>set [website_row]. \<forall>label v. row_entry r = Some (label, v) \<longrightarrow>
         \<not> label_matches ''Population'' label"
    by simp
  note result = population_row_parsed_and_selected
      [of "parser_giving city_page" "''<table>''", OF infobox rows header data header_text
        data_text later]
  note selected = mp [OF conjunct2 [OF result] earlier]
  show ?thesis
    by (intro conjI infobox rows header data header_text data_text metres feet zone website
          unrelated conjunct1 [OF result] selected)
qed

section \<open>The request path\<close>

lemma replace_map: "replace s old new = map (\<lambda>c. if c = old then new else c) s"
  by (induction s) simp_all

text \<open>
  Claim C9. For every place name, the path the fetcher builds is the name with each space
  turned into an underscore and every other character kept as it is, and the one request
  the fetcher makes goes to the base address followed by that path, with no further
  escaping.
\<close>

theorem request_path_spaces_to_underscores:
  "canonical_name city_name = map (\<lambda>c. if c = CHR '' '' then CHR ''_'' else c) city_name
   \<and> snd (fetch_city_page_html get calls city_name) =
       calls @ [''https://en.wikipedia.org/wiki/'' @ canonical_name city_name]"
  by (simp add: canonical_name_def replace_map fetch_city_page_html_def request_url_def Let_def
      split: sum.splits)

section \<open>The command line: usage, transport failures, no data\<close>

text \<open>
  Claim C8. Started without a place name (at most the program name in \<open>argv\<close>), the
  program prints the usage line, ends with exit status 1 and makes no network call.
\<close>

theorem missing_argument_usage:
  "length argv < 2 \<Longrightarrow>
     main bs get argv = \<lparr>printed = [usage_message], exit_status = 1, network_calls = []\<rparr>"
  by (simp add: main_def)

theorem missing_argument_usage_witness:
  "length [''scrape_city_infobox.py''] < 2 \<and>
   main (parser_giving heading_only_page) unreachable
     [''scrape_city_infobox.py''] =
     \<lparr>printed = [usage_message], exit_status = 1, network_calls = []\<rparr>"
  using missing_argument_usage [of "[''scrape_city_infobox.py'']"] by simp

end
